theory Spec2Isabelle
  imports Main "HOL-Library.AList"
begin

section \<open>JSON values as the route handlers see them\<close>

text \<open>
  The handlers work on untyped JSON (\<open>any\<close>): the webhook body, the renderer's answer and
  the \<open>meta\<close> column. A JavaScript value that may be \<open>undefined\<close> is a \<open>json option\<close>,
  \<open>None\<close> being \<open>undefined\<close>. Numbers are abstracted to integers: the handlers only test
  them for being zero and copy them. An object is an association list in insertion order,
  read with \<open>map_of\<close>.
\<close>

datatype json =
    JNull
  | JBool bool
  | JNum int
  | JStr string
  | JArr "json list"
  | JObj "(string \<times> json) list"

text \<open>JavaScript truthiness, as used by \<open>if (x)\<close>, \<open>!x\<close> and \<open>x || y\<close>.\<close>

fun truthy :: "json option \<Rightarrow> bool" where
  "truthy None = False"
| "truthy (Some JNull) = False"
| "truthy (Some (JBool b)) = b"
| "truthy (Some (JNum n)) = (n \<noteq> 0)"
| "truthy (Some (JStr s)) = (s \<noteq> [])"
| "truthy (Some (JArr xs)) = True"
| "truthy (Some (JObj kvs)) = True"

text \<open>
  The property read \<open>v.k\<close> on a value that is not \<open>null\<close>, for the fixed names the handlers
  read (none of them an index or \<open>length\<close>): only an object has such a property.
\<close>

fun get_prop :: "json \<Rightarrow> string \<Rightarrow> json option" where
  "get_prop (JObj kvs) k = map_of kvs k"
| "get_prop v k = None"

text \<open>Optional chaining \<open>v?.k\<close>: \<open>undefined\<close> on \<open>undefined\<close> and on \<open>null\<close>.\<close>

fun opt_prop :: "json option \<Rightarrow> string \<Rightarrow> json option" where
  "opt_prop None k = None"
| "opt_prop (Some JNull) k = None"
| "opt_prop (Some v) k = get_prop v k"

text \<open>Decimal rendering of numbers, as template literals and index keys need it.\<close>

fun show_nat :: "nat \<Rightarrow> string" where
  "show_nat n =
     (if n < 10 then [''0123456789'' ! n]
      else show_nat (n div 10) @ [''0123456789'' ! (n mod 10)])"

declare show_nat.simps [simp del]

definition show_int :: "int \<Rightarrow> string" where
  "show_int i = (if i < 0 then ''-'' @ show_nat (nat (- i)) else show_nat (nat i))"

fun join_with :: "string \<Rightarrow> string list \<Rightarrow> string" where
  "join_with sep [] = []"
| "join_with sep [x] = x"
| "join_with sep (x # y # ys) = x @ sep @ join_with sep (y # ys)"

text \<open>\<open>String(v)\<close>, the conversion a template literal and \<open>new Error(v)\<close> apply.\<close>

fun to_String :: "json \<Rightarrow> string" where
  "to_String JNull = ''null''"
| "to_String (JBool b) = (if b then ''true'' else ''false'')"
| "to_String (JNum n) = show_int n"
| "to_String (JStr s) = s"
| "to_String (JArr xs) =
     join_with '','' (map (\<lambda>x. if x = JNull then [] else to_String x) xs)"
| "to_String (JObj kvs) = ''[object Object]''"

text \<open>
  Object spread \<open>{...v}\<close>: the own enumerable properties of \<open>v\<close>. An object gives its
  entries, an array and a string their indexed elements, anything else nothing.
\<close>

fun spread :: "json \<Rightarrow> (string \<times> json) list" where
  "spread (JObj kvs) = kvs"
| "spread (JArr xs) = zip (map show_nat [0..<length xs]) xs"
| "spread (JStr s) = zip (map show_nat [0..<length s]) (map (\<lambda>c. JStr [c]) s)"
| "spread v = []"

text \<open>
  Writing the property \<open>k: v\<close> into an object literal that is then sent as JSON: a defined
  value replaces the entry in place or is appended; \<open>undefined\<close> is dropped by the
  serialisation, together with any entry of that name that a spread brought in.
\<close>

definition set_field :: "string \<Rightarrow> json option \<Rightarrow> (string \<times> json) list \<Rightarrow> (string \<times> json) list" where
  "set_field k v kvs =
     (case v of None \<Rightarrow> AList.delete k kvs | Some x \<Rightarrow> AList.update k x kvs)"

section \<open>The \<open>videos\<close> table\<close>

datatype vstatus = Draft | Pending | Processing | Completed | Failed

record video =
  user_id :: string
  property_id :: "json option"
  script_content :: "string option"
  status :: "vstatus option"
  video_url :: json
  meta :: json

type_synonym db = "string \<rightharpoonup> video"

text \<open>
  The body of an \<open>update\<close>: a column that is absent, or whose value is \<open>undefined\<close>, is not
  transmitted and keeps its stored value.
\<close>

record video_update =
  upd_status :: "vstatus option"
  upd_video_url :: "json option"
  upd_meta :: "json option"

definition apply_update :: "video_update \<Rightarrow> video \<Rightarrow> video" where
  "apply_update u r =
     r\<lparr>status := (case upd_status u of None \<Rightarrow> status r | Some s \<Rightarrow> Some s),
       video_url := (case upd_video_url u of None \<Rightarrow> video_url r | Some x \<Rightarrow> x),
       meta := (case upd_meta u of None \<Rightarrow> meta r | Some m \<Rightarrow> m)\<rparr>"

text \<open>
  The filter \<open>.eq('id', v)\<close>: ids are strings, so only a string value selects a row, and
  only when that row is stored.
\<close>

definition find_row :: "db \<Rightarrow> json option \<Rightarrow> (string \<times> video) option" where
  "find_row d v =
     (case v of
        Some (JStr s) \<Rightarrow> (case d s of None \<Rightarrow> None | Some r \<Rightarrow> Some (s, r))
      | _ \<Rightarrow> None)"

definition db_update :: "db \<Rightarrow> json option \<Rightarrow> video_update \<Rightarrow> db" where
  "db_update d v u =
     (case find_row d v of None \<Rightarrow> d | Some (s, r) \<Rightarrow> d(s \<mapsto> apply_update u r))"

text \<open>
  What the database may do beyond the handler's control: a read that returns no data, a
  write that is answered with an error (and then changes nothing).
\<close>

record db_faults =
  select_fails :: bool
  update_error :: "string option"

section \<open>The handlers' responses (\<open>NextResponse.json\<close>)\<close>

record next_response =
  resp_code :: nat
  resp_body :: json

definition json_response :: "json \<Rightarrow> nat \<Rightarrow> next_response" where
  "json_response b c = \<lparr>resp_code = c, resp_body = b\<rparr>"

text \<open>
  The control flow of a handler's \<open>try\<close> block: it throws (the error's message), returns a
  response, or goes on with a value.
\<close>

datatype 'a flow = Throws string | Returns next_response | Value 'a

text \<open>
  Destructuring \<open>null\<close> throws a TypeError; its message is the engine's (here V8's, for the
  first destructured name).
\<close>

definition destructure_null :: "string \<Rightarrow> string" where
  "destructure_null name =
     ''Cannot destructure property '' @ [CHR 0x27] @ name @ [CHR 0x27] @ '' of '' @
     [CHR 0x27] @ ''body'' @ [CHR 0x27] @ '' as it is null.''"

section \<open>The webhook receiver (\<open>api/creatomate/webhook/route.ts\<close>)\<close>

text \<open>
  Lines 16 to 23: a metadata string is parsed; when parsing fails the string is kept.
  \<open>JSON_parse\<close> is the platform's parser, \<open>None\<close> when it throws.
\<close>

definition parse_metadata :: "(string \<Rightarrow> json option) \<Rightarrow> json option \<Rightarrow> json option" where
  "parse_metadata JSON_parse metadata =
     (case metadata of
        Some (JStr s) \<Rightarrow> (case JSON_parse s of Some v \<Rightarrow> Some v | None \<Rightarrow> Some (JStr s))
      | _ \<Rightarrow> metadata)"

text \<open>Line 30: the provider's status vocabulary mapped to the record's.\<close>

definition webhook_status :: "json option \<Rightarrow> vstatus" where
  "webhook_status st =
     (if st = Some (JStr ''succeeded'') then Completed
      else if st = Some (JStr ''failed'') then Failed
      else Pending)"

text \<open>Lines 39 to 44: the stored metadata with the three provider fields written over it.\<close>

definition merge_meta :: "json \<Rightarrow> json option \<Rightarrow> json option \<Rightarrow> json option \<Rightarrow> json" where
  "merge_meta current ext_id url st =
     JObj (set_field ''last_webhook_status'' st
            (set_field ''render_url'' url
              (set_field ''creatomate_id'' ext_id (spread current))))"

text \<open>Lines 27 to 55: the branch taken when the metadata carries a video id.\<close>

definition webhook_update ::
  "db_faults \<Rightarrow> json option \<Rightarrow> json option \<Rightarrow> json option \<Rightarrow> json option \<Rightarrow> db \<Rightarrow> unit flow \<times> db" where
  "webhook_update F videoId ext_id st url d =
     (let currentVideo = (if select_fails F then None else find_row d videoId);
          updateData = \<lparr>upd_status = Some (webhook_status st),
                        upd_video_url = url,
                        upd_meta = (case currentVideo of
                                      None \<Rightarrow> None
                                    | Some (s, r) \<Rightarrow> Some (merge_meta (meta r) ext_id url st))\<rparr>
      in case update_error F of
           Some msg \<Rightarrow> (Throws msg, d)
         | None \<Rightarrow> (Value (), db_update d videoId updateData))"

text \<open>
  Lines 6 to 63: the \<open>try\<close> block, given the parsed request body (\<open>ext_id\<close> is the
  payload's \<open>id\<close>, the renderer's own job id).
\<close>

definition webhook_try ::
  "(string \<Rightarrow> json option) \<Rightarrow> db_faults \<Rightarrow> json \<Rightarrow> db \<Rightarrow> unit flow \<times> db" where
  "webhook_try JSON_parse F body d =
     (if body = JNull then (Throws (destructure_null ''id''), d)
      else
        let ext_id = get_prop body ''id'';
            st = get_prop body ''status'';
            url = get_prop body ''url'';
            metadata = get_prop body ''metadata''
        in if \<not> truthy ext_id \<or> \<not> truthy st
           then (Returns (json_response (JObj [(''error'', JStr ''Invalid payload'')]) 400), d)
           else
             let parsedMetadata = parse_metadata JSON_parse metadata;
                 videoId = opt_prop parsedMetadata ''videoId''
             in if truthy videoId
                then webhook_update F videoId ext_id st url d
                else (Value (), d))"

text \<open>
  The handler: \<open>req.json()\<close> gives the body or throws (\<open>Inl\<close>, the message); whatever the
  \<open>try\<close> block throws becomes a 500 response carrying the message.
\<close>

definition webhook_POST ::
  "(string \<Rightarrow> json option) \<Rightarrow> db_faults \<Rightarrow> string + json \<Rightarrow> db \<Rightarrow> next_response \<times> db" where
  "webhook_POST JSON_parse F req d =
     (case req of
        Inl msg \<Rightarrow> (json_response (JObj [(''error'', JStr msg)]) 500, d)
      | Inr body \<Rightarrow>
          (case webhook_try JSON_parse F body d of
             (Throws msg, d') \<Rightarrow> (json_response (JObj [(''error'', JStr msg)]) 500, d')
           | (Returns r, d') \<Rightarrow> (r, d')
           | (Value u, d') \<Rightarrow> (json_response (JObj [(''received'', JBool True)]) 200, d')))"

section \<open>The status poller (\<open>hooks/use-video-status.ts\<close>)\<close>

record hook_state =
  hs_video :: "video option"
  hs_status :: vstatus

definition hook_init :: hook_state where
  "hook_init = \<lparr>hs_video = None, hs_status = Pending\<rparr>"

text \<open>
  Lines 12 to 23: one tick reads the row and copies it into the hook's state; the table is
  only read, so it is returned as it was. \<open>fails\<close> is a read that returns no data.
\<close>

definition fetchStatus :: "bool \<Rightarrow> string \<Rightarrow> db \<times> hook_state \<Rightarrow> db \<times> hook_state" where
  "fetchStatus fails videoId s =
     (case s of (d, hs) \<Rightarrow>
        (case (if fails then None else d videoId) of
           None \<Rightarrow> (d, hs)
         | Some data \<Rightarrow>
             (d, \<lparr>hs_video = Some data,
                  hs_status = (case status data of None \<Rightarrow> Pending | Some x \<Rightarrow> x)\<rparr>)))"

text \<open>Line 10 and lines 25, 26: no tick runs for an empty id.\<close>

definition poll_tick :: "bool \<Rightarrow> string \<Rightarrow> db \<times> hook_state \<Rightarrow> db \<times> hook_state" where
  "poll_tick fails videoId s = (if videoId = [] then s else fetchStatus fails videoId s)"

section \<open>The generation gateway (\<open>api/creatomate/generate/route.ts\<close>)\<close>

subsection \<open>The renderer's answers\<close>

text \<open>
  A \<open>fetch\<close> either rejects (a transport failure, with its message) or resolves to a
  response with a status; \<open>response.json()\<close> gives the parsed body or throws (\<open>Inl\<close>).
\<close>

record http_response =
  http_status :: nat
  http_json :: "string + json"

definition ok :: "http_response \<Rightarrow> bool" where
  "ok r = (200 \<le> http_status r \<and> http_status r \<le> 299)"

datatype fetch_outcome = Rejects string | Answers http_response

subsection \<open>The retry loop, lines 68 to 102\<close>

definition maxRetries :: nat where
  "maxRetries = 3"

record loop_state =
  response :: "http_response option"
  lastError :: "string option"
  attempts :: nat
  delays :: "nat list"

definition loop_init :: loop_state where
  "loop_init = \<lparr>response = None, lastError = None, attempts = 0, delays = []\<rparr>"

definition read_null :: "string \<Rightarrow> string" where
  "read_null name =
     ''Cannot read properties of null (reading '' @ [CHR 0x27] @ name @ [CHR 0x27] @ '')''"

text \<open>
  Lines 91 and 92, for a response below 500 that is not ok: the message of what is
  thrown there, be it the \<open>Error\<close> built from the provider's body or the failure to read
  that body.
\<close>

definition client_error :: "http_response \<Rightarrow> string" where
  "client_error r =
     (case http_json r of
        Inl msg \<Rightarrow> msg
      | Inr result \<Rightarrow>
          if result = JNull then read_null ''error''
          else (case get_prop result ''error'' of
                  None \<Rightarrow> ''Request failed with status '' @ show_nat (http_status r)
                | Some e \<Rightarrow>
                    if truthy (Some e) then to_String e
                    else ''Request failed with status '' @ show_nat (http_status r)))"

text \<open>
  The \<open>for\<close> loop from index \<open>i\<close> on. The environment \<open>fetch\<close> gives the outcome of the
  call made in iteration \<open>i\<close>. Whatever the \<open>try\<close> body throws, the throw of line 92
  included, is caught at line 94 inside the loop, which then goes on to the next index.
\<close>

function retry_from :: "(nat \<Rightarrow> fetch_outcome) \<Rightarrow> nat \<Rightarrow> loop_state \<Rightarrow> loop_state" where
  "retry_from fetch i st =
     (if i < maxRetries then
        let st1 = (if i > 0 then st\<lparr>delays := delays st @ [500 * 2 ^ (i - 1)]\<rparr> else st);
            st2 = st1\<lparr>attempts := Suc (attempts st1)\<rparr>
        in case fetch i of
             Rejects msg \<Rightarrow> retry_from fetch (Suc i) (st2\<lparr>lastError := Some msg\<rparr>)
           | Answers r \<Rightarrow>
               let st3 = st2\<lparr>response := Some r\<rparr>
               in if ok r then st3
                  else if http_status r < 500
                  then retry_from fetch (Suc i) (st3\<lparr>lastError := Some (client_error r)\<rparr>)
                  else retry_from fetch (Suc i) st3
      else st)"
  by pat_completeness auto
termination
  by (relation "measure (\<lambda>(fetch, i, st). maxRetries - i)") auto

declare retry_from.simps [simp del]

text \<open>Lines 68 to 102: the loop and the check after it; \<open>Inl\<close> is the error thrown.\<close>

definition call_renderer :: "(nat \<Rightarrow> fetch_outcome) \<Rightarrow> (string + http_response) \<times> loop_state" where
  "call_renderer fetch =
     (let st = retry_from fetch 0 loop_init;
          failure = (case lastError st of
                       Some msg \<Rightarrow> msg
                     | None \<Rightarrow> ''Failed to connect to Creatomate API'')
      in case response st of
           None \<Rightarrow> (Inl failure, st)
         | Some r \<Rightarrow> if ok r then (Inr r, st) else (Inl failure, st))"

subsection \<open>The handler\<close>

text \<open>
  What the handler is given besides the request: the session's user (its id), the two
  methods of \<open>TemplateManager\<close> (\<open>getTemplate\<close> gives \<open>null\<close> for an unknown name,
  \<open>applyTemplate\<close> may throw), the two environment variables, what the database answers to
  the insert (an error, or the id of the new row), the renderer's outcome for each attempt, and
  whether the last update is lost.
\<close>

record gen_env =
  auth_user :: "string option"
  getTemplate :: "json \<Rightarrow> json"
  applyTemplate :: "json \<Rightarrow> json \<Rightarrow> string + json"
  CREATOMATE_API_KEY :: "string option"
  NEXT_PUBLIC_APP_URL :: "string option"
  insert_error :: "string option"
  new_id :: string
  renderer :: "nat \<Rightarrow> fetch_outcome"
  update_fails :: bool

record request =
  origin :: "string option"
  req_json :: "string + json"

text \<open>\<open>x || y\<close> on a value that may be undefined.\<close>

definition or_else :: "json option \<Rightarrow> json \<Rightarrow> json" where
  "or_else x y = (case x of None \<Rightarrow> y | Some v \<Rightarrow> if truthy (Some v) then v else y)"

text \<open>Lines 15 to 32: the modifications, taken from the body or built from a template.\<close>

definition template_step :: "gen_env \<Rightarrow> json \<Rightarrow> json option flow" where
  "template_step E body =
     (let modifications = get_prop body ''modifications'';
          templateId = get_prop body ''templateId'';
          templateData = get_prop body ''data''
      in case templateId of
           None \<Rightarrow> Value modifications
         | Some tid \<Rightarrow>
             if \<not> truthy (Some tid) then Value modifications
             else
               let template = getTemplate E tid
               in if \<not> truthy (Some template)
                  then Returns (json_response
                         (JObj [(''error'', JStr (''Template '' @ [CHR 0x27] @ to_String tid @
                                                [CHR 0x27] @ '' not found''))]) 404)
                  else (case applyTemplate E template (or_else templateData (JObj [])) of
                          Inl msg \<Rightarrow> Throws msg
                        | Inr m \<Rightarrow> Value (Some m)))"

text \<open>Lines 39 to 45: the renderer's template id.\<close>

definition creatomateTemplateId :: "gen_env \<Rightarrow> json option \<Rightarrow> json" where
  "creatomateTemplateId E templateId =
     (let fallback = JStr ''6ac80fd5-c928-4640-ac1c-c3a0bafac3c5''
      in case templateId of
           None \<Rightarrow> fallback
         | Some tid \<Rightarrow>
             if truthy (Some tid)
             then or_else (opt_prop (Some (getTemplate E tid)) ''id'') fallback
             else fallback)"

text \<open>Lines 50 to 56: the row that is inserted.\<close>

definition new_video :: "string \<Rightarrow> json option \<Rightarrow> json option \<Rightarrow> json option \<Rightarrow> video" where
  "new_video user propertyId templateId modifications =
     \<lparr>user_id = user,
      property_id = propertyId,
      script_content = Some (case templateId of
                               None \<Rightarrow> ''Creatomate Video Edit''
                             | Some tid \<Rightarrow>
                                 if truthy (Some tid) then ''Template: '' @ to_String tid
                                 else ''Creatomate Video Edit''),
      status = Some Pending,
      video_url = JNull,
      meta = JObj (set_field ''templateId'' templateId
                    (set_field ''modifications'' modifications
                      [(''template'', JStr ''CREATOMATE_EDIT'')]))\<rparr>"

text \<open>Lines 60 to 66: the request sent to the renderer.\<close>

definition render_request ::
  "(json \<Rightarrow> string) \<Rightarrow> gen_env \<Rightarrow> request \<Rightarrow> string \<Rightarrow> json \<Rightarrow> json option \<Rightarrow> json" where
  "render_request JSON_stringify E req user template_id modifications =
     (let base = (case origin req of
                    None \<Rightarrow> (case NEXT_PUBLIC_APP_URL E of None \<Rightarrow> ''undefined'' | Some a \<Rightarrow> a)
                  | Some h \<Rightarrow>
                      if h \<noteq> [] then h
                      else (case NEXT_PUBLIC_APP_URL E of None \<Rightarrow> ''undefined'' | Some a \<Rightarrow> a))
      in JObj (set_field ''webhook_url'' (Some (JStr (base @ ''/api/creatomate/webhook'')))
                (set_field ''metadata''
                   (Some (JStr (JSON_stringify
                      (JObj [(''videoId'', JStr (new_id E)), (''userId'', JStr user)]))))
                  (set_field ''modifications'' modifications
                    [(''template_id'', template_id)]))))"

text \<open>Line 105: the render the answer describes.\<close>

definition render_of :: "json \<Rightarrow> json option" where
  "render_of result =
     (case result of JArr [] \<Rightarrow> None | JArr (x # xs) \<Rightarrow> Some x | v \<Rightarrow> Some v)"

text \<open>Lines 109 to 119: what is written to the row once the renderer has answered.\<close>

definition render_update :: "json \<Rightarrow> json \<Rightarrow> video_update" where
  "render_update video_meta render =
     \<lparr>upd_status = Some (if get_prop render ''status'' = Some (JStr ''succeeded'')
                         then Completed else Pending),
      upd_video_url = get_prop render ''url'',
      upd_meta = Some (JObj (set_field ''render_url'' (get_prop render ''url'')
                              (set_field ''creatomate_id'' (get_prop render ''id'')
                                (spread video_meta))))\<rparr>"

text \<open>
  Lines 14 to 122, the \<open>try\<close> block for the signed-in user. Besides the outcome and the
  table it gives what went to the renderer: nothing, or the request and the loop's final
  state.
\<close>

definition generate_try ::
  "(json \<Rightarrow> string) \<Rightarrow> gen_env \<Rightarrow> request \<Rightarrow> string \<Rightarrow> db \<Rightarrow>
     string flow \<times> db \<times> (json \<times> loop_state) option" where
  "generate_try JSON_stringify E req user d =
     (case req_json req of
        Inl msg \<Rightarrow> (Throws msg, d, None)
      | Inr body \<Rightarrow>
          if body = JNull then (Throws (destructure_null ''modifications''), d, None)
          else
            let propertyId = get_prop body ''propertyId'';
                templateId = get_prop body ''templateId''
            in (case template_step E body of
                  Throws msg \<Rightarrow> (Throws msg, d, None)
                | Returns r \<Rightarrow> (Returns r, d, None)
                | Value modifications \<Rightarrow>
                    if \<not> (case CREATOMATE_API_KEY E of None \<Rightarrow> False | Some k \<Rightarrow> k \<noteq> [])
                    then (Throws ''Missing CREATOMATE_API_KEY'', d, None)
                    else
                      let row = new_video user propertyId templateId modifications
                      in (case insert_error E of
                            Some msg \<Rightarrow> (Throws msg, d, None)
                          | None \<Rightarrow>
                              let d1 = d(new_id E \<mapsto> row);
                                  data = render_request JSON_stringify E req user
                                           (creatomateTemplateId E templateId) modifications;
                                  called = call_renderer (renderer E)
                              in (case fst called of
                                    Inl msg \<Rightarrow> (Throws msg, d1, Some (data, snd called))
                                  | Inr r \<Rightarrow>
                                      (case http_json r of
                                         Inl msg \<Rightarrow> (Throws msg, d1, Some (data, snd called))
                                       | Inr result \<Rightarrow>
                                           let d2 = (case render_of result of
                                                       None \<Rightarrow> d1
                                                     | Some render \<Rightarrow>
                                                         if truthy (Some render) \<and> \<not> update_fails E
                                                         then db_update d1 (Some (JStr (new_id E)))
                                                                (render_update (meta row) render)
                                                         else d1)
                                           in (Value (new_id E), d2,
                                               Some (data, snd called)))))))"

text \<open>The handler: lines 6 to 11 turn away a request without a user before anything else.\<close>

definition generate_POST ::
  "(json \<Rightarrow> string) \<Rightarrow> gen_env \<Rightarrow> request \<Rightarrow> db \<Rightarrow>
     next_response \<times> db \<times> (json \<times> loop_state) option" where
  "generate_POST JSON_stringify E req d =
     (case auth_user E of
        None \<Rightarrow> (json_response (JObj [(''error'', JStr ''Unauthorized'')]) 401, d, None)
      | Some user \<Rightarrow>
          (case generate_try JSON_stringify E req user d of
             (Throws msg, d', t) \<Rightarrow> (json_response (JObj [(''error'', JStr msg)]) 500, d', t)
           | (Returns r, d', t) \<Rightarrow> (r, d', t)
           | (Value videoId, d', t) \<Rightarrow>
               (json_response (JObj [(''success'', JBool True), (''videoId'', JStr videoId)]) 200,
                d', t)))"

section \<open>Runs of the webhook and the poller over one table\<close>

text \<open>
  The two paths that touch a stored record after its creation: a webhook delivery (with
  what the database does during it) and a tick of the poller for some id.
\<close>

datatype event = Delivery db_faults "string + json" | Tick bool string

fun step :: "(string \<Rightarrow> json option) \<Rightarrow> event \<Rightarrow> db \<times> hook_state \<Rightarrow> db \<times> hook_state" where
  "step JSON_parse (Delivery F req) (d, hs) = (snd (webhook_POST JSON_parse F req d), hs)"
| "step JSON_parse (Tick fails videoId) (d, hs) = poll_tick fails videoId (d, hs)"

fun run :: "(string \<Rightarrow> json option) \<Rightarrow> event list \<Rightarrow> db \<times> hook_state \<Rightarrow> db \<times> hook_state" where
  "run JSON_parse [] s = s"
| "run JSON_parse (e # es) s = run JSON_parse es (step JSON_parse e s)"

section \<open>Notions used in the statements\<close>

text \<open>
  A failed attempt that is the transport's or the server's fault: the call rejects, or the
  answer has a status of 500 or more.
\<close>

definition transport_failure :: "fetch_outcome \<Rightarrow> bool" where
  "transport_failure out =
     (case out of Rejects msg \<Rightarrow> True | Answers r \<Rightarrow> 500 \<le> http_status r)"

text \<open>The delay of line 75 before attempt \<open>i\<close>, in milliseconds.\<close>

definition backoff :: "nat \<Rightarrow> nat" where
  "backoff i = 500 * 2 ^ (i - 1)"

text \<open>The ok answer the gateway ended its loop with, read off what it reports.\<close>

definition renderer_answer :: "(json \<times> loop_state) option \<Rightarrow> http_response option" where
  "renderer_answer t =
     (case t of
        None \<Rightarrow> None
      | Some (data, st) \<Rightarrow>
          (case response st of None \<Rightarrow> None | Some r \<Rightarrow> if ok r then Some r else None))"

text \<open>An entry list already shows what writing \<open>k: v\<close> would leave.\<close>

definition has_field :: "string \<Rightarrow> json option \<Rightarrow> (string \<times> json) list \<Rightarrow> bool" where
  "has_field k v kvs =
     (case v of None \<Rightarrow> k \<notin> fst ` set kvs | Some x \<Rightarrow> map_of kvs k = Some x)"

text \<open>The table after the gateway has inserted \<open>row\<close> and called the renderer.\<close>

definition after_call :: "gen_env \<Rightarrow> db \<Rightarrow> video \<Rightarrow> db" where
  "after_call E d row =
     (case fst (call_renderer (renderer E)) of
        Inl msg \<Rightarrow> d(new_id E \<mapsto> row)
      | Inr r \<Rightarrow>
          (case http_json r of
             Inl msg \<Rightarrow> d(new_id E \<mapsto> row)
           | Inr result \<Rightarrow>
               (case render_of result of
                  None \<Rightarrow> d(new_id E \<mapsto> row)
                | Some render \<Rightarrow>
                    if truthy (Some render) \<and> \<not> update_fails E
                    then d(new_id E \<mapsto> apply_update (render_update (meta row) render) row)
                    else d(new_id E \<mapsto> row))))"

section \<open>Concrete inputs\<close>

text \<open>
  One record \<open>V1\<close> of user \<open>u1\<close> for property \<open>P1\<close>, the renderer's callbacks for its
  render \<open>r1\<close>, and a codec that knows the one metadata object the gateway sends for it.
\<close>

definition no_faults :: db_faults where
  "no_faults = \<lparr>select_fails = False, update_error = None\<rparr>"

definition video_V1 :: "vstatus \<Rightarrow> video" where
  "video_V1 s =
     \<lparr>user_id = ''u1'', property_id = Some (JStr ''P1''),
      script_content = Some ''Creatomate Video Edit'', status = Some s, video_url = JNull,
      meta = JObj [(''template'', JStr ''CREATOMATE_EDIT'')]\<rparr>"

definition videos_V1 :: "vstatus \<Rightarrow> db" where
  "videos_V1 s = [''V1'' \<mapsto> video_V1 s]"

definition callback :: "string \<Rightarrow> json \<Rightarrow> json" where
  "callback provider_status metadata =
     JObj [(''id'', JStr ''r1''), (''status'', JStr provider_status),
           (''url'', JStr ''https://cdn/x.mp4''), (''metadata'', metadata)]"

definition metadata_V1 :: "(string \<times> json) list" where
  "metadata_V1 = [(''videoId'', JStr ''V1''), (''userId'', JStr ''u1'')]"

definition stub_stringify :: "json \<Rightarrow> string" where
  \<open>stub_stringify v =
     (if v = JObj metadata_V1 then ''{"videoId":"V1","userId":"u1"}'' else ''null'')\<close>

definition stub_parse :: "string \<Rightarrow> json option" where
  \<open>stub_parse s =
     (if s = ''{"videoId":"V1","userId":"u1"}'' then Some (JObj metadata_V1)
      else if s = ''null'' then Some JNull
      else None)\<close>

definition answer_succeeded :: http_response where
  "answer_succeeded =
     \<lparr>http_status = 200,
      http_json = Inr (JArr [JObj [(''id'', JStr ''r1''), (''status'', JStr ''succeeded''),
                                   (''url'', JStr ''https://cdn/x.mp4'')]])\<rparr>"

definition answer_400 :: http_response where
  "answer_400 =
     \<lparr>http_status = 400, http_json = Inr (JObj [(''error'', JStr ''Template not found'')])\<rparr>"

definition rejects_twice :: "nat \<Rightarrow> fetch_outcome" where
  "rejects_twice i = (if i < 2 then Rejects ''fetch failed'' else Answers answer_succeeded)"

definition client_error_first :: "nat \<Rightarrow> fetch_outcome" where
  "client_error_first i = (if i = 0 then Answers answer_400 else Answers answer_succeeded)"

definition client_error_always :: "nat \<Rightarrow> fetch_outcome" where
  "client_error_always i = Answers answer_400"

definition gateway_env :: "string option \<Rightarrow> (nat \<Rightarrow> fetch_outcome) \<Rightarrow> gen_env" where
  "gateway_env user outcomes =
     \<lparr>auth_user = user, getTemplate = (\<lambda>t. JNull), applyTemplate = (\<lambda>t data. Inr data),
      CREATOMATE_API_KEY = Some ''key'', NEXT_PUBLIC_APP_URL = Some ''https://app'',
      insert_error = None, new_id = ''V1'', renderer = outcomes, update_fails = False\<rparr>"

definition submit_P1 :: request where
  "submit_P1 = \<lparr>origin = None, req_json = Inr (JObj [(''propertyId'', JStr ''P1'')])\<rparr>"

lemmas webhook_eval =
  webhook_POST_def webhook_try_def webhook_update_def webhook_status_def db_update_def
  find_row_def apply_update_def parse_metadata_def merge_meta_def set_field_def
  json_response_def callback_def metadata_V1_def videos_V1_def video_V1_def no_faults_def

lemmas loop_eval =
  call_renderer_def retry_from.simps maxRetries_def loop_init_def ok_def client_error_def
  answer_succeeded_def answer_400_def Let_def

lemmas gateway_eval =
  generate_POST_def generate_try_def template_step_def new_video_def render_request_def
  creatomateTemplateId_def render_of_def render_update_def renderer_answer_def
  gateway_env_def submit_P1_def rejects_twice_def

section \<open>Writing fields into an object\<close>

lemma map_of_set_field: "map_of (set_field k v kvs) = (map_of kvs)(k := v)"
  by (cases v) (simp_all add: set_field_def update_conv' delete_conv')

lemma has_field_set_field: "has_field k v (set_field k v kvs)"
  by (cases v) (simp_all add: has_field_def set_field_def update_conv' delete_notin_dom)

lemma keys_set_field_other:
  "k \<noteq> k' \<Longrightarrow> k \<in> fst ` set (set_field k' v' kvs) \<longleftrightarrow> k \<in> fst ` set kvs"
proof (cases v')
  case None
  assume "k \<noteq> k'"
  have "set (map fst (AList.delete k' kvs)) = set (removeAll k' (map fst kvs))"
    by (simp only: delete_keys)
  with None \<open>k \<noteq> k'\<close> show ?thesis
    by (auto simp: set_field_def)
next
  case (Some x)
  assume "k \<noteq> k'"
  have "set (map fst (AList.update k' x kvs)) = insert k' (set (map fst kvs))"
    by (simp only: update_keys) auto
  with Some \<open>k \<noteq> k'\<close> show ?thesis
    by (auto simp: set_field_def)
qed

lemma has_field_set_other:
  "k \<noteq> k' \<Longrightarrow> has_field k v kvs \<Longrightarrow> has_field k v (set_field k' v' kvs)"
  by (cases v) (simp_all add: has_field_def keys_set_field_other map_of_set_field)

lemma set_field_present: "has_field k v kvs \<Longrightarrow> set_field k v kvs = kvs"
  by (cases v) (simp_all add: has_field_def set_field_def update_triv)

text \<open>Merging the same provider fields a second time changes nothing.\<close>

lemma merge_meta_idem: "merge_meta (merge_meta m i u s) i u s = merge_meta m i u s"
proof -
  let ?L = "set_field ''last_webhook_status'' s
              (set_field ''render_url'' u (set_field ''creatomate_id'' i (spread m)))"
  have 1: "has_field ''creatomate_id'' i ?L"
    by (intro has_field_set_other has_field_set_field) simp_all
  have 2: "has_field ''render_url'' u ?L"
    by (intro has_field_set_other has_field_set_field) simp_all
  have 3: "has_field ''last_webhook_status'' s ?L"
    by (rule has_field_set_field)
  show ?thesis
    by (simp add: merge_meta_def set_field_present 1 2 3)
qed


section \<open>The webhook receiver: what a delivery does to a stored row\<close>

lemma find_row_cases:
  obtains (none) "find_row d v = None"
  | (row) s r where "v = Some (JStr s)" "d s = Some r" "find_row d v = Some (s, r)"
proof (cases "find_row d v")
  case None
  then show ?thesis by (rule none)
next
  case (Some p)
  then obtain s r where "v = Some (JStr s)" "d s = Some r" "p = (s, r)"
    by (auto simp: find_row_def split: option.splits json.splits)
  with Some show ?thesis by (intro row) simp_all
qed

lemma apply_update_twice: "apply_update u (apply_update u r) = apply_update u r"
  by (simp add: apply_update_def split: option.splits)

lemma webhook_update_row:
  assumes "d v = Some r"
  shows "\<exists>r'. snd (webhook_update F videoId i st url d) v = Some r' \<and>
           (r' = r \<or>
            (videoId = Some (JStr v) \<and> update_error F = None \<and>
             status r' = Some (webhook_status st) \<and>
             video_url r' = (case url of None \<Rightarrow> video_url r | Some x \<Rightarrow> x) \<and>
             meta r' = (if select_fails F then meta r else merge_meta (meta r) i url st)))"
  using assms
  by (auto simp: webhook_update_def db_update_def find_row_def apply_update_def Let_def
           split: option.splits json.splits)

text \<open>
  Every stored row is still stored after a delivery, and it is either untouched or
  rewritten from the payload alone.
\<close>

lemma webhook_POST_row:
  assumes "d v = Some r"
  shows "\<exists>r'. snd (webhook_POST P F req d) v = Some r' \<and>
           (r' = r \<or>
            (\<exists>body. req = Inr body \<and>
             status r' = Some (webhook_status (get_prop body ''status'')) \<and>
             video_url r' = (case get_prop body ''url'' of None \<Rightarrow> video_url r | Some x \<Rightarrow> x) \<and>
             meta r' = (if select_fails F then meta r
                        else merge_meta (meta r) (get_prop body ''id'') (get_prop body ''url'')
                               (get_prop body ''status''))))"
proof (cases req)
  case (Inl msg)
  with assms show ?thesis by (simp add: webhook_POST_def)
next
  case (Inr body)
  show ?thesis
  proof (cases "body \<noteq> JNull \<and> truthy (get_prop body ''id'') \<and> truthy (get_prop body ''status'')
       \<and> truthy (opt_prop (parse_metadata P (get_prop body ''metadata'')) ''videoId'')")
    case False
    with assms Inr show ?thesis
      by (auto simp: webhook_POST_def webhook_try_def Let_def)
  next
    case True
    let ?vid = "opt_prop (parse_metadata P (get_prop body ''metadata'')) ''videoId''"
    let ?u = "webhook_update F ?vid (get_prop body ''id'') (get_prop body ''status'')
                (get_prop body ''url'') d"
    from True Inr have eq: "snd (webhook_POST P F req d) = snd ?u"
      by (simp add: webhook_POST_def webhook_try_def Let_def split: prod.splits flow.splits)
    from assms have "\<exists>r'. snd ?u v = Some r' \<and>
           (r' = r \<or>
            (status r' = Some (webhook_status (get_prop body ''status'')) \<and>
             video_url r' = (case get_prop body ''url'' of None \<Rightarrow> video_url r | Some x \<Rightarrow> x) \<and>
             meta r' = (if select_fails F then meta r
                        else merge_meta (meta r) (get_prop body ''id'') (get_prop body ''url'')
                               (get_prop body ''status''))))"
      using webhook_update_row [where d = d and v = v and r = r and F = F and videoId = ?vid
          and i = "get_prop body ''id''" and st = "get_prop body ''status''"
          and url = "get_prop body ''url''"]
      by blast
    then show ?thesis unfolding eq using Inr by blast
  qed
qed

lemma webhook_update_idem:
  "webhook_update F videoId i st url (snd (webhook_update F videoId i st url d)) =
   webhook_update F videoId i st url d"
proof (cases "update_error F")
  case (Some msg)
  then show ?thesis by (simp add: webhook_update_def Let_def)
next
  case None
  show ?thesis
  proof (cases d videoId rule: find_row_cases)
    case none
    with None show ?thesis
      by (simp add: webhook_update_def db_update_def Let_def)
  next
    case (row s r)
    define u where "u = \<lparr>upd_status = Some (webhook_status st), upd_video_url = url,
       upd_meta = (if select_fails F then None else Some (merge_meta (meta r) i url st))\<rparr>"
    have first: "webhook_update F videoId i st url d = (Value (), d(s \<mapsto> apply_update u r))"
      using None row by (simp add: webhook_update_def db_update_def Let_def u_def)
    let ?d1 = "d(s \<mapsto> apply_update u r)"
    have found: "find_row ?d1 videoId = Some (s, apply_update u r)"
      using row by (simp add: find_row_def)
    have same: "(if select_fails F then None
                 else Some (merge_meta (meta (apply_update u r)) i url st)) = upd_meta u"
      by (simp add: u_def apply_update_def merge_meta_idem)
    have "webhook_update F videoId i st url ?d1 =
          (Value (), ?d1(s \<mapsto> apply_update
             \<lparr>upd_status = Some (webhook_status st), upd_video_url = url,
              upd_meta = (if select_fails F then None
                 else Some (merge_meta (meta (apply_update u r)) i url st))\<rparr> (apply_update u r)))"
      using None found
      by (simp add: webhook_update_def db_update_def Let_def)
    also have "\<lparr>upd_status = Some (webhook_status st), upd_video_url = url,
              upd_meta = (if select_fails F then None
                 else Some (merge_meta (meta (apply_update u r)) i url st))\<rparr> = u"
      unfolding same by (simp add: u_def)
    finally have second: "webhook_update F videoId i st url ?d1 =
        (Value (), ?d1(s \<mapsto> apply_update u (apply_update u r)))" .
    show ?thesis
      by (simp only: first snd_conv second apply_update_twice fun_upd_upd)
  qed
qed

section \<open>The webhook receiver: the claims\<close>

text \<open>
  Claim C10. A webhook payload that lacks the external id field or the status field is
  answered with status 400 and the message \<open>Invalid payload\<close>, and no job record is
  changed. (The payload is any JSON value but \<open>null\<close>, whose destructuring throws.)
\<close>

theorem webhook_invalid_payload:
  assumes "body \<noteq> JNull"
    and "get_prop body ''id'' = None \<or> get_prop body ''status'' = None"
  shows "webhook_POST JSON_parse F (Inr body) d =
           (json_response (JObj [(''error'', JStr ''Invalid payload'')]) 400, d)"
  using assms by (auto simp: webhook_POST_def webhook_try_def)

theorem webhook_invalid_payload_witness:
  "JObj [(''id'', JStr ''r1'')] \<noteq> JNull \<and>
   (get_prop (JObj [(''id'', JStr ''r1'')]) ''id'' = None \<or>
    get_prop (JObj [(''id'', JStr ''r1'')]) ''status'' = None) \<and>
   webhook_POST stub_parse no_faults (Inr (JObj [(''id'', JStr ''r1'')])) (videos_V1 Pending) =
     (json_response (JObj [(''error'', JStr ''Invalid payload'')]) 400, videos_V1 Pending)"
  using webhook_invalid_payload [of "JObj [(''id'', JStr ''r1'')]" stub_parse no_faults
      "videos_V1 Pending"]
  by simp

text \<open>
  Claim C6. A webhook payload that carries an external id and a status, but whose metadata
  yields no internal job id, never makes the receiver throw: whatever the database would
  do, the answer is the success acknowledgment and no job record is changed.
\<close>

theorem webhook_missing_correlation:
  assumes "truthy (get_prop body ''id'')"
    and "truthy (get_prop body ''status'')"
    and "\<not> truthy (opt_prop (parse_metadata JSON_parse (get_prop body ''metadata'')) ''videoId'')"
  shows "webhook_POST JSON_parse F (Inr body) d =
           (json_response (JObj [(''received'', JBool True)]) 200, d)"
proof -
  from assms(1) have "body \<noteq> JNull" by auto
  with assms show ?thesis
    by (simp add: webhook_POST_def webhook_try_def Let_def)
qed

theorem webhook_missing_correlation_witness:
  "truthy (get_prop (callback ''succeeded'' (JObj [(''userId'', JStr ''u1'')])) ''id'') \<and>
   truthy (get_prop (callback ''succeeded'' (JObj [(''userId'', JStr ''u1'')])) ''status'') \<and>
   \<not> truthy (opt_prop (parse_metadata stub_parse
         (get_prop (callback ''succeeded'' (JObj [(''userId'', JStr ''u1'')])) ''metadata''))
       ''videoId'') \<and>
   webhook_POST stub_parse no_faults
       (Inr (callback ''succeeded'' (JObj [(''userId'', JStr ''u1'')]))) (videos_V1 Pending) =
     (json_response (JObj [(''received'', JBool True)]) 200, videos_V1 Pending)"
  using webhook_missing_correlation [of "callback ''succeeded'' (JObj [(''userId'', JStr ''u1'')])"
      stub_parse no_faults "videos_V1 Pending"]
  by (simp add: callback_def parse_metadata_def)

text \<open>
  Claim C7. For every metadata object \<open>m\<close> that the platform's codec reads back from its
  own encoding, the receiver does the same whether the payload's metadata field is \<open>m\<close>
  itself or the JSON-encoded string of \<open>m\<close>: the same internal job id is extracted, and
  the response and the resulting table are the same.
\<close>

theorem webhook_metadata_encoding:
  assumes roundtrip: "JSON_parse (JSON_stringify (JObj m)) = Some (JObj m)"
  shows "opt_prop (parse_metadata JSON_parse (Some (JStr (JSON_stringify (JObj m))))) ''videoId'' =
         opt_prop (parse_metadata JSON_parse (Some (JObj m))) ''videoId'' \<and>
         webhook_POST JSON_parse F
           (Inr (JObj (AList.update ''metadata'' (JStr (JSON_stringify (JObj m))) payload))) d =
         webhook_POST JSON_parse F
           (Inr (JObj (AList.update ''metadata'' (JObj m) payload))) d"
  using roundtrip
  by (simp add: webhook_POST_def webhook_try_def parse_metadata_def update_conv' Let_def)

theorem webhook_metadata_encoding_witness:
  "stub_parse (stub_stringify (JObj metadata_V1)) = Some (JObj metadata_V1) \<and>
   opt_prop (parse_metadata stub_parse (Some (JStr (stub_stringify (JObj metadata_V1)))))
     ''videoId'' = Some (JStr ''V1'') \<and>
   webhook_POST stub_parse no_faults
     (Inr (JObj (AList.update ''metadata'' (JStr (stub_stringify (JObj metadata_V1)))
                   [(''id'', JStr ''r1''), (''status'', JStr ''failed'')]))) (videos_V1 Pending) =
   webhook_POST stub_parse no_faults
     (Inr (JObj (AList.update ''metadata'' (JObj metadata_V1)
                   [(''id'', JStr ''r1''), (''status'', JStr ''failed'')]))) (videos_V1 Pending) \<and>
   map_option status (snd (webhook_POST stub_parse no_faults
     (Inr (JObj (AList.update ''metadata'' (JObj metadata_V1)
                   [(''id'', JStr ''r1''), (''status'', JStr ''failed'')]))) (videos_V1 Pending))
     ''V1'') = Some (Some Failed)"
  using webhook_metadata_encoding [of stub_parse stub_stringify metadata_V1 no_faults
      "[(''id'', JStr ''r1''), (''status'', JStr ''failed'')]" "videos_V1 Pending"]
  by (simp add: webhook_eval stub_parse_def stub_stringify_def)



text \<open>
  Claim C5. The webhook receiver is idempotent: delivering a payload a second time, the
  database behaving as in the first delivery, gives the same response and leaves the table,
  hence the record the payload refers to with its status, video url and merged metadata,
  exactly as the first delivery left it.
\<close>

theorem webhook_idempotent:
  "webhook_POST JSON_parse F req (snd (webhook_POST JSON_parse F req d)) =
   webhook_POST JSON_parse F req d"
proof (cases req)
  case (Inl msg)
  then show ?thesis by (simp add: webhook_POST_def)
next
  case (Inr body)
  show ?thesis
  proof (cases "body \<noteq> JNull \<and> truthy (get_prop body ''id'') \<and> truthy (get_prop body ''status'')
       \<and> truthy (opt_prop (parse_metadata JSON_parse (get_prop body ''metadata'')) ''videoId'')")
    case False
    with Inr show ?thesis
      by (auto simp: webhook_POST_def webhook_try_def Let_def)
  next
    case True
    let ?up = "webhook_update F
                 (opt_prop (parse_metadata JSON_parse (get_prop body ''metadata'')) ''videoId'')
                 (get_prop body ''id'') (get_prop body ''status'') (get_prop body ''url'')"
    from True have tr: "webhook_try JSON_parse F body e = ?up e" for e
      by (simp add: webhook_try_def Let_def)
    have post: "webhook_POST JSON_parse F req e =
        (case ?up e of
           (Throws msg, d') \<Rightarrow> (json_response (JObj [(''error'', JStr msg)]) 500, d')
         | (Returns r, d') \<Rightarrow> (r, d')
         | (Value u, d') \<Rightarrow> (json_response (JObj [(''received'', JBool True)]) 200, d'))" for e
      using Inr by (simp add: webhook_POST_def tr)
    have snd_post: "snd (webhook_POST JSON_parse F req d) = snd (?up d)"
      by (simp add: post split: prod.splits flow.splits)
    show ?thesis
      unfolding snd_post unfolding post by (simp only: webhook_update_idem)
  qed
qed

theorem webhook_idempotent_witness:
  "webhook_POST stub_parse no_faults (Inr (callback ''succeeded'' (JObj metadata_V1)))
     (snd (webhook_POST stub_parse no_faults (Inr (callback ''succeeded'' (JObj metadata_V1)))
        (videos_V1 Pending))) =
   webhook_POST stub_parse no_faults (Inr (callback ''succeeded'' (JObj metadata_V1)))
     (videos_V1 Pending) \<and>
   snd (webhook_POST stub_parse no_faults (Inr (callback ''succeeded'' (JObj metadata_V1)))
     (videos_V1 Pending)) ''V1'' =
   Some ((video_V1 Completed)
     \<lparr>video_url := JStr ''https://cdn/x.mp4'',
      meta := JObj [(''template'', JStr ''CREATOMATE_EDIT''), (''creatomate_id'', JStr ''r1''),
                    (''render_url'', JStr ''https://cdn/x.mp4''),
                    (''last_webhook_status'', JStr ''succeeded'')]\<rparr>)"
  using webhook_idempotent [of stub_parse no_faults
      "Inr (callback ''succeeded'' (JObj metadata_V1))" "videos_V1 Pending"]
  by (simp add: webhook_eval)

section \<open>The lifecycle of a record under deliveries and poller reads\<close>

lemma poll_tick_db: "fst (poll_tick fails videoId (d, hs)) = d"
  by (simp add: poll_tick_def fetchStatus_def split: option.splits)

lemma webhook_status_cases:
  "Some (webhook_status st) \<in> {Some Pending, Some Completed, Some Failed}"
  by (simp add: webhook_status_def)

lemma step_status:
  assumes "fst s v = Some r"
  shows "\<exists>r'. fst (step P e s) v = Some r' \<and>
           (status r' = status r \<or> status r' \<in> {Some Pending, Some Completed, Some Failed})"
proof (cases s)
  case (Pair d hs)
  with assms have dv: "d v = Some r" by simp
  show ?thesis
  proof (cases e)
    case (Delivery F req)
    from webhook_POST_row [where d = d and v = v and r = r and P = P and F = F and req = req] dv
    obtain r' where "snd (webhook_POST P F req d) v = Some r'"
      and "r' = r \<or> (\<exists>st. status r' = Some (webhook_status st))"
      by blast
    then have "snd (webhook_POST P F req d) v = Some r' \<and>
        (status r' = status r \<or> status r' \<in> {Some Pending, Some Completed, Some Failed})"
      using webhook_status_cases by metis
    with Pair Delivery show ?thesis
      by auto
  next
    case (Tick fails videoId)
    with Pair dv poll_tick_db [of fails videoId d hs] show ?thesis by simp
  qed
qed

lemma run_status:
  assumes "fst s v = Some r"
  shows "\<exists>r'. fst (run P es s) v = Some r' \<and>
           (status r' = status r \<or> status r' \<in> {Some Pending, Some Completed, Some Failed})"
  using assms
proof (induction es arbitrary: s r)
  case Nil
  then show ?case by simp
next
  case (Cons e es)
  from step_status [OF Cons.prems, of P e] obtain r1 where
    r1: "fst (step P e s) v = Some r1"
    and s1: "status r1 = status r \<or> status r1 \<in> {Some Pending, Some Completed, Some Failed}"
    by blast
  from Cons.IH [OF r1] obtain r' where
    "fst (run P es (step P e s)) v = Some r'"
    and "status r' = status r1 \<or> status r' \<in> {Some Pending, Some Completed, Some Failed}"
    by blast
  with s1 show ?case by auto
qed

text \<open>
  A record that is completed and receives the renderer's callback for a status other than
  \<open>succeeded\<close> and \<open>failed\<close> is pending afterwards: a terminal state is left.
\<close>

theorem terminal_state_left_counterexample:
  "videos_V1 Completed ''V1'' = Some (video_V1 Completed) \<and>
   status (video_V1 Completed) = Some Completed \<and>
   map_option status
     (snd (webhook_POST stub_parse no_faults (Inr (callback ''rendering'' (JObj metadata_V1)))
        (videos_V1 Completed)) ''V1'') = Some (Some Pending)"
  by (simp add: webhook_eval)

text \<open>
  Claim C1, amended. A poller read changes no job record. A webhook delivery leaves the
  status of a stored record as it was or overwrites it, whatever it was, with the image of
  the payload's provider status: completed for \<open>succeeded\<close>, failed for \<open>failed\<close>,
  pending for anything else. So along any sequence of deliveries and poller reads the
  status of a record is its initial one or one of pending, completed and failed; a
  terminal state is not kept against a later delivery.
\<close>

theorem lifecycle_last_write_wins:
  assumes "d v = Some r"
  shows "fst (poll_tick fails videoId (d, hs)) = d \<and>
         (\<exists>r'. snd (webhook_POST JSON_parse F (Inr body) d) v = Some r' \<and>
               (status r' = status r \<or>
                status r' = Some (webhook_status (get_prop body ''status'')))) \<and>
         (\<exists>r'. fst (run JSON_parse es (d, hs)) v = Some r' \<and>
               (status r' = status r \<or> status r' \<in> {Some Pending, Some Completed, Some Failed}))"
proof (intro conjI)
  show "fst (poll_tick fails videoId (d, hs)) = d" by (rule poll_tick_db)
  from webhook_POST_row [where d = d and v = v and r = r and P = JSON_parse and F = F
      and req = "Inr body"] assms
  show "\<exists>r'. snd (webhook_POST JSON_parse F (Inr body) d) v = Some r' \<and>
               (status r' = status r \<or>
                status r' = Some (webhook_status (get_prop body ''status'')))"
    by auto
  from run_status [where s = "(d, hs)" and v = v and r = r and P = JSON_parse and es = es] assms
  show "\<exists>r'. fst (run JSON_parse es (d, hs)) v = Some r' \<and>
               (status r' = status r \<or> status r' \<in> {Some Pending, Some Completed, Some Failed})"
    by simp
qed

theorem lifecycle_last_write_wins_witness:
  "videos_V1 Pending ''V1'' = Some (video_V1 Pending) \<and>
   fst (poll_tick False ''V1'' (videos_V1 Pending, hook_init)) = videos_V1 Pending \<and>
   map_option status
     (snd (webhook_POST stub_parse no_faults (Inr (callback ''failed'' (JObj metadata_V1)))
        (videos_V1 Pending)) ''V1'') = Some (Some Failed) \<and>
   map_option status
     (fst (run stub_parse
        [Delivery no_faults (Inr (callback ''succeeded'' (JObj metadata_V1))), Tick False ''V1'',
         Delivery no_faults (Inr (callback ''rendering'' (JObj metadata_V1)))]
        (videos_V1 Pending, hook_init)) ''V1'') = Some (Some Pending)"
  using lifecycle_last_write_wins [of "videos_V1 Pending" "''V1''" "video_V1 Pending" False "''V1''"
      hook_init stub_parse no_faults "callback ''failed'' (JObj metadata_V1)"
      "[Delivery no_faults (Inr (callback ''succeeded'' (JObj metadata_V1))), Tick False ''V1'',
         Delivery no_faults (Inr (callback ''rendering'' (JObj metadata_V1)))]"]
  by (simp add: webhook_eval poll_tick_def fetchStatus_def)

section \<open>The generation gateway: the retry loop\<close>

lemma retry_from_success:
  assumes "i < maxRetries" "fetch i = Answers r" "ok r"
  shows "retry_from fetch i st =
           st\<lparr>response := Some r, attempts := Suc (attempts st),
              delays := (if i > 0 then delays st @ [backoff i] else delays st)\<rparr>"
  using assms by (subst retry_from.simps) (simp add: Let_def backoff_def)

text \<open>A failed attempt below the budget costs one call, and its delay when it is a retry.\<close>

lemma retry_from_failure:
  assumes "i < maxRetries" "transport_failure (fetch i)"
  shows "\<exists>st'. retry_from fetch i st = retry_from fetch (Suc i) st' \<and>
           attempts st' = Suc (attempts st) \<and>
           delays st' = (if i > 0 then delays st @ [backoff i] else delays st)"
proof -
  define st2 where
    "st2 = (if i > 0 then st\<lparr>delays := delays st @ [500 * 2 ^ (i - 1)]\<rparr> else st)
             \<lparr>attempts := Suc (attempts
                 (if i > 0 then st\<lparr>delays := delays st @ [500 * 2 ^ (i - 1)]\<rparr> else st))\<rparr>"
  have st2: "attempts st2 = Suc (attempts st)"
    "delays st2 = (if i > 0 then delays st @ [backoff i] else delays st)"
    by (simp_all add: st2_def backoff_def)
  show ?thesis
  proof (cases "fetch i")
    case (Rejects msg)
    with assms(1)
    have "retry_from fetch i st = retry_from fetch (Suc i) (st2\<lparr>lastError := Some msg\<rparr>)"
      by (subst retry_from.simps) (simp add: Let_def st2_def)
    then show ?thesis
      by (intro exI [of _ "st2\<lparr>lastError := Some msg\<rparr>"]) (simp add: st2)
  next
    case (Answers r)
    with assms(2) have "500 \<le> http_status r" by (simp add: transport_failure_def)
    then have "\<not> ok r" "\<not> http_status r < 500" by (simp_all add: ok_def)
    with assms(1) Answers
    have "retry_from fetch i st = retry_from fetch (Suc i) (st2\<lparr>response := Some r\<rparr>)"
      by (subst retry_from.simps) (simp add: Let_def st2_def)
    then show ?thesis
      by (intro exI [of _ "st2\<lparr>response := Some r\<rparr>"]) (simp add: st2)
  qed
qed

lemma retry_from_failures_then_success:
  assumes "i + k < maxRetries"
    and "\<forall>j. i \<le> j \<and> j < i + k \<longrightarrow> transport_failure (fetch j)"
    and "fetch (i + k) = Answers r" and "ok r"
  shows "response (retry_from fetch i st) = Some r \<and>
         attempts (retry_from fetch i st) = attempts st + k + 1 \<and>
         delays (retry_from fetch i st) = delays st @ map backoff [max 1 i..<i + k + 1]"
  using assms
proof (induction k arbitrary: i st)
  case 0
  then show ?case by (simp add: retry_from_success)
next
  case (Suc k)
  from Suc.prems have i: "i < maxRetries" and f: "transport_failure (fetch i)" by auto
  from retry_from_failure [where fetch = fetch and i = i and st = st] i f obtain st' where
    step: "retry_from fetch i st = retry_from fetch (Suc i) st'"
    and a: "attempts st' = Suc (attempts st)"
    and dl: "delays st' = (if i > 0 then delays st @ [backoff i] else delays st)"
    by blast
  have ih: "response (retry_from fetch (Suc i) st') = Some r \<and>
         attempts (retry_from fetch (Suc i) st') = attempts st' + k + 1 \<and>
         delays (retry_from fetch (Suc i) st') =
           delays st' @ map backoff [max 1 (Suc i)..<Suc i + k + 1]"
    using Suc.prems by (intro Suc.IH) auto
  show ?case
  proof (cases "i = 0")
    case True
    with ih show ?thesis
      unfolding step by (simp add: a dl del: upt_Suc)
  next
    case False
    then have "[i..<Suc (Suc (i + k))] = i # [Suc i..<Suc (Suc (i + k))]"
      by (simp add: upt_conv_Cons)
    with False ih show ?thesis
      unfolding step by (simp add: a dl del: upt_Suc)
  qed
qed

lemma backoff_increasing: "sorted_wrt (<) (map backoff [Suc 0..<n])"
proof -
  have "sorted_wrt (\<lambda>x y. backoff x < backoff y) [Suc 0..<n]"
    by (rule sorted_wrt_mono_rel [where P = "(<)"]) (auto simp: backoff_def)
  then show ?thesis by (simp add: sorted_wrt_map)
qed

text \<open>
  The loop and the check after it, for failures by transport followed by an ok answer
  within the budget.
\<close>

lemma call_renderer_failures_then_success:
  assumes "f < maxRetries"
    and "\<forall>i<f. transport_failure (fetch i)"
    and "fetch f = Answers r" and "ok r"
  shows "fst (call_renderer fetch) = Inr r \<and>
         response (snd (call_renderer fetch)) = Some r \<and>
         attempts (snd (call_renderer fetch)) = min (f + 1) maxRetries \<and>
         delays (snd (call_renderer fetch)) = map backoff [1..<f + 1] \<and>
         sorted_wrt (<) (delays (snd (call_renderer fetch)))"
proof -
  from retry_from_failures_then_success [of 0 f fetch r loop_init] assms
  have "response (retry_from fetch 0 loop_init) = Some r"
    and "attempts (retry_from fetch 0 loop_init) = f + 1"
    and "delays (retry_from fetch 0 loop_init) = map backoff [1..<f + 1]"
    by (simp_all add: loop_init_def del: upt_Suc)
  with assms(1,4) show ?thesis
    by (simp add: call_renderer_def Let_def backoff_increasing del: upt_Suc)
qed

text \<open>
  Claim C2 asks for a single attempt, no delay and an immediate failure when the first
  answer is a 4xx. The loop does otherwise: the error thrown for the 400 answer is caught
  inside the loop, which goes on. With a 400 first and an ok answer next the call makes
  two attempts, waits 500 ms and succeeds; with a 400 every time it makes three attempts,
  waits 500 ms and 1000 ms, and only then fails with the provider's message.
\<close>

theorem client_error_is_retried:
  "client_error_first 0 = Answers answer_400 \<and> http_status answer_400 = 400 \<and>
   call_renderer client_error_first =
     (Inr answer_succeeded,
      \<lparr>response = Some answer_succeeded, lastError = Some ''Template not found'',
       attempts = 2, delays = [500]\<rparr>) \<and>
   fst (generate_POST stub_stringify (gateway_env (Some ''u1'') client_error_first)
          submit_P1 Map.empty) =
     json_response (JObj [(''success'', JBool True), (''videoId'', JStr ''V1'')]) 200 \<and>
   call_renderer client_error_always =
     (Inl ''Template not found'',
      \<lparr>response = Some answer_400, lastError = Some ''Template not found'',
       attempts = 3, delays = [500, 1000]\<rparr>) \<and>
   fst (generate_POST stub_stringify (gateway_env (Some ''u1'') client_error_always)
          submit_P1 Map.empty) =
     json_response (JObj [(''error'', JStr ''Template not found'')]) 500"
  by (simp add: gateway_eval loop_eval webhook_eval client_error_first_def
        client_error_always_def)

section \<open>The generation gateway: the handler\<close>

text \<open>
  Claim C9. A request without a signed-in user is answered at once with status 401 and the
  message \<open>Unauthorized\<close>; no job record is created and the renderer is not called.
\<close>

theorem unauthenticated_rejected:
  assumes "auth_user E = None"
  shows "generate_POST JSON_stringify E req d =
           (json_response (JObj [(''error'', JStr ''Unauthorized'')]) 401, d, None)"
  using assms by (simp add: generate_POST_def)

theorem unauthenticated_rejected_witness:
  "auth_user (gateway_env None rejects_twice) = None \<and>
   generate_POST stub_stringify (gateway_env None rejects_twice) submit_P1 (videos_V1 Pending) =
     (json_response (JObj [(''error'', JStr ''Unauthorized'')]) 401, videos_V1 Pending, None)"
  using unauthenticated_rejected [of "gateway_env None rejects_twice" stub_stringify submit_P1
      "videos_V1 Pending"]
  by (simp add: gateway_env_def)

text \<open>
  Claim C3. In every run of the gateway that gets as far as calling the renderer (a
  signed-in user, a readable request body, modifications resolved, the API key set, the
  record inserted), when the renderer fails \<open>f\<close> attempts in a row by transport (a
  rejected call or a status of 500 or more) and then answers ok with a readable body, all
  within the budget of three attempts, the gateway answers with its success result for the
  new record, having ended its loop on that ok answer after exactly \<open>min (f + 1) 3\<close>
  attempts, and the delays before the retries, 500 ms doubled each time, are strictly
  increasing.
\<close>

theorem generate_retry_then_success:
  assumes user: "auth_user E = Some user"
    and request: "req_json req = Inr body" "body \<noteq> JNull"
    and template: "template_step E body = Value mods"
    and key: "CREATOMATE_API_KEY E = Some k" "k \<noteq> []"
    and inserted: "insert_error E = None"
    and budget: "f < maxRetries"
    and failures: "\<forall>i<f. transport_failure (renderer E i)"
    and success: "renderer E f = Answers r" "ok r"
    and readable: "http_json r = Inr result"
  shows "fst (generate_POST JSON_stringify E req d) =
           json_response (JObj [(''success'', JBool True), (''videoId'', JStr (new_id E))]) 200 \<and>
         renderer_answer (snd (snd (generate_POST JSON_stringify E req d))) = Some r \<and>
         (\<exists>data st. snd (snd (generate_POST JSON_stringify E req d)) = Some (data, st) \<and>
            attempts st = min (f + 1) maxRetries \<and>
            delays st = map backoff [1..<f + 1] \<and>
            sorted_wrt (<) (delays st))"
proof -
  from call_renderer_failures_then_success [of f "renderer E" r] budget failures success
  have called: "fst (call_renderer (renderer E)) = Inr r"
    and answer: "response (snd (call_renderer (renderer E))) = Some r"
    and count: "attempts (snd (call_renderer (renderer E))) = min (f + 1) maxRetries"
    and waits: "delays (snd (call_renderer (renderer E))) = map backoff [1..<f + 1]"
    and increasing: "sorted_wrt (<) (delays (snd (call_renderer (renderer E))))"
    by blast+
  define data where "data = render_request JSON_stringify E req user
      (creatomateTemplateId E (get_prop body ''templateId'')) mods"
  have "\<exists>d'. generate_try JSON_stringify E req user d =
          (Value (new_id E), d', Some (data, snd (call_renderer (renderer E))))"
    using request template key inserted called readable
    by (simp add: generate_try_def Let_def data_def)
  then obtain d' where "generate_try JSON_stringify E req user d =
          (Value (new_id E), d', Some (data, snd (call_renderer (renderer E))))"
    by blast
  with user have run: "generate_POST JSON_stringify E req d =
      (json_response (JObj [(''success'', JBool True), (''videoId'', JStr (new_id E))]) 200,
       d', Some (data, snd (call_renderer (renderer E))))"
    by (simp add: generate_POST_def)
  from answer success(2)
  have "renderer_answer (Some (data, snd (call_renderer (renderer E)))) = Some r"
    by (simp add: renderer_answer_def)
  with run count waits increasing show ?thesis
    by simp
qed

theorem generate_retry_then_success_witness:
  "auth_user (gateway_env (Some ''u1'') rejects_twice) = Some ''u1'' \<and>
   req_json submit_P1 = Inr (JObj [(''propertyId'', JStr ''P1'')]) \<and>
   JObj [(''propertyId'', JStr ''P1'')] \<noteq> JNull \<and>
   template_step (gateway_env (Some ''u1'') rejects_twice)
     (JObj [(''propertyId'', JStr ''P1'')]) = Value None \<and>
   CREATOMATE_API_KEY (gateway_env (Some ''u1'') rejects_twice) = Some ''key'' \<and>
   ''key'' \<noteq> [] \<and>
   insert_error (gateway_env (Some ''u1'') rejects_twice) = None \<and>
   2 < maxRetries \<and>
   transport_failure (renderer (gateway_env (Some ''u1'') rejects_twice) 0) \<and>
   transport_failure (renderer (gateway_env (Some ''u1'') rejects_twice) 1) \<and>
   renderer (gateway_env (Some ''u1'') rejects_twice) 2 = Answers answer_succeeded \<and>
   ok answer_succeeded \<and>
   http_json answer_succeeded =
     Inr (JArr [JObj [(''id'', JStr ''r1''), (''status'', JStr ''succeeded''),
                      (''url'', JStr ''https://cdn/x.mp4'')]]) \<and>
   fst (generate_POST stub_stringify (gateway_env (Some ''u1'') rejects_twice) submit_P1
          Map.empty) =
     json_response (JObj [(''success'', JBool True), (''videoId'', JStr ''V1'')]) 200 \<and>
   renderer_answer (snd (snd (generate_POST stub_stringify
       (gateway_env (Some ''u1'') rejects_twice) submit_P1 Map.empty))) =
     Some answer_succeeded \<and>
   map_option (\<lambda>t. (attempts (snd t), delays (snd t)))
     (snd (snd (generate_POST stub_stringify (gateway_env (Some ''u1'') rejects_twice)
        submit_P1 Map.empty))) = Some (3, [500, 1000])"
proof -
  have failures: "\<forall>i<2. transport_failure (renderer (gateway_env (Some ''u1'') rejects_twice) i)"
    by (simp add: gateway_env_def rejects_twice_def transport_failure_def)
  from generate_retry_then_success [of "gateway_env (Some ''u1'') rejects_twice" "''u1''"
      submit_P1 "JObj [(''propertyId'', JStr ''P1'')]" None "''key''" 2 answer_succeeded
      "JArr [JObj [(''id'', JStr ''r1''), (''status'', JStr ''succeeded''),
                      (''url'', JStr ''https://cdn/x.mp4'')]]" stub_stringify Map.empty]
    failures
  show ?thesis
    by (simp add: gateway_eval loop_eval webhook_eval transport_failure_def)
qed

lemma db_update_fresh:
  "db_update (d(k \<mapsto> row)) (Some (JStr k)) u = d(k \<mapsto> apply_update u row)"
  by (simp add: db_update_def find_row_def)

text \<open>A run that reached the renderer has inserted the pending row first.\<close>

lemma generate_try_called:
  assumes "generate_try S E req user d = (out, d', Some (data, st))"
  shows "\<exists>body mods. req_json req = Inr body \<and> template_step E body = Value mods \<and>
     st = snd (call_renderer (renderer E)) \<and>
     d' = after_call E d (new_video user (get_prop body ''propertyId'')
                            (get_prop body ''templateId'') mods)"
  using assms
  by (auto simp: generate_try_def Let_def db_update_fresh after_call_def
           split: sum.splits if_splits flow.splits option.splits)

lemma call_renderer_ok:
  assumes "response (snd (call_renderer fetch)) = Some r" "ok r"
  shows "fst (call_renderer fetch) = Inr r"
  using assms by (auto simp: call_renderer_def Let_def split: option.splits if_splits)

lemma opt_prop_truthy:
  "opt_prop (Some v) k = Some x \<Longrightarrow> truthy (Some v) \<and> get_prop v k = Some x"
  by (cases v) simp_all

text \<open>
  Claim C4. Whenever the gateway has called the renderer for a signed-in user and got an ok
  answer whose body it could read, the job record it created is stored, and: if the render
  in that answer reports the status \<open>succeeded\<close> (and the database takes the update), the
  record is completed and its video url is the url the render reports; for every other
  status the record is still pending.
\<close>

theorem generate_sync_status:
  assumes answer: "renderer_answer (snd (snd (generate_POST JSON_stringify E req d))) = Some r"
    and body: "http_json r = Inr result"
  shows "\<exists>row. fst (snd (generate_POST JSON_stringify E req d)) (new_id E) = Some row \<and>
           (if opt_prop (render_of result) ''status'' = Some (JStr ''succeeded'') \<and>
               \<not> update_fails E
            then status row = Some Completed \<and>
                 (\<forall>u. opt_prop (render_of result) ''url'' = Some u \<longrightarrow> video_url row = u)
            else status row = Some Pending)"
proof -
  obtain resp d' t where run: "generate_POST JSON_stringify E req d = (resp, d', t)"
    by (cases "generate_POST JSON_stringify E req d") auto
  with answer obtain data st where t: "t = Some (data, st)"
    and st_r: "response st = Some r" and ok_r: "ok r"
    by (auto simp: renderer_answer_def split: option.splits if_splits)
  from run t obtain user out where
    "generate_try JSON_stringify E req user d = (out, d', Some (data, st))"
    by (auto simp: generate_POST_def split: option.splits prod.splits flow.splits)
  from generate_try_called [OF this] obtain body mods where
    st: "st = snd (call_renderer (renderer E))"
    and inserted: "d' = after_call E d (new_video user (get_prop body ''propertyId'')
                            (get_prop body ''templateId'') mods)"
    by blast
  define row where "row = new_video user (get_prop body ''propertyId'')
                            (get_prop body ''templateId'') mods"
  have row: "status row = Some Pending"
    by (simp add: row_def new_video_def)
  from inserted have d': "d' = after_call E d row"
    by (simp add: row_def)
  from st_r ok_r st have "fst (call_renderer (renderer E)) = Inr r"
    by (simp add: call_renderer_ok)
  with d' body have d'': "d' = (case render_of result of
                     None \<Rightarrow> d(new_id E \<mapsto> row)
                   | Some render \<Rightarrow>
                       if truthy (Some render) \<and> \<not> update_fails E
                       then d(new_id E \<mapsto> apply_update (render_update (meta row) render) row)
                       else d(new_id E \<mapsto> row))"
    by (simp add: after_call_def)
  have "\<exists>row. d' (new_id E) = Some row \<and>
           (if opt_prop (render_of result) ''status'' = Some (JStr ''succeeded'') \<and>
               \<not> update_fails E
            then status row = Some Completed \<and>
                 (\<forall>u. opt_prop (render_of result) ''url'' = Some u \<longrightarrow> video_url row = u)
            else status row = Some Pending)"
  proof (cases "render_of result")
    case None
    with d'' row show ?thesis by simp
  next
    case (Some render)
    show ?thesis
    proof (cases "truthy (Some render) \<and> \<not> update_fails E")
      case False
      with Some d'' row show ?thesis
        by (auto dest: opt_prop_truthy)
    next
      case True
      then have g: "opt_prop (Some render) k = get_prop render k" for k
        by (cases render) simp_all
      from True Some d'' row show ?thesis
        by (simp add: g apply_update_def render_update_def)
    qed
  qed
  with run show ?thesis by simp
qed

theorem generate_sync_status_witness:
  "renderer_answer (snd (snd (generate_POST stub_stringify (gateway_env (Some ''u1'') rejects_twice)
      submit_P1 Map.empty))) = Some answer_succeeded \<and>
   http_json answer_succeeded =
     Inr (JArr [JObj [(''id'', JStr ''r1''), (''status'', JStr ''succeeded''),
                      (''url'', JStr ''https://cdn/x.mp4'')]]) \<and>
   new_id (gateway_env (Some ''u1'') rejects_twice) = ''V1'' \<and>
   fst (snd (generate_POST stub_stringify (gateway_env (Some ''u1'') rejects_twice)
      submit_P1 Map.empty)) ''V1'' =
     Some ((video_V1 Completed)
       \<lparr>video_url := JStr ''https://cdn/x.mp4'',
        meta := JObj [(''template'', JStr ''CREATOMATE_EDIT''), (''creatomate_id'', JStr ''r1''),
                      (''render_url'', JStr ''https://cdn/x.mp4'')]\<rparr>)"
  using generate_sync_status [of stub_stringify "gateway_env (Some ''u1'') rejects_twice"
      submit_P1 Map.empty answer_succeeded
      "JArr [JObj [(''id'', JStr ''r1''), (''status'', JStr ''succeeded''),
                      (''url'', JStr ''https://cdn/x.mp4'')]]"]
  by (simp add: gateway_eval loop_eval webhook_eval)

end
